theory Spec2Isabelle
  imports Main
begin

unbundle bit_operations_syntax

section \<open>Values shared by all file-system classes\<close>

text \<open>
  The program is Python 2: a \<^verbatim>\<open>str\<close> is a byte string, modelled as \<^typ>\<open>string\<close>
  (a list of 8-bit characters), and an integer is unbounded (\<^typ>\<open>int\<close>).

  A handler of the file system either returns a value, returns the integer
  \<^verbatim>\<open>-ENOENT\<close>, or raises. An exception is a value of \<open>exn\<close> on the left of a sum;
  the return \<^verbatim>\<open>-ENOENT\<close> is the reply \<open>NoEnt\<close>. A handler that mutates
  \<^verbatim>\<open>self\<close> returns the state it leaves behind next to its outcome, also when it
  raises: what Python has assigned before the exception stays assigned.
\<close>

datatype exn =
  KeyError | IndexError | ValueError | TypeError | IOError | AttributeError
  | CsvError | BackendFailure

datatype 'a reply = Ok 'a | NoEnt

subsection \<open>The \<^verbatim>\<open>StringIO.StringIO\<close> buffer of the standard library\<close>

text \<open>
  The pure-Python class \<^verbatim>\<open>StringIO.StringIO\<close> keeps the content \<^verbatim>\<open>buf\<close>, a length
  \<^verbatim>\<open>len\<close> that it maintains by hand, and the position \<^verbatim>\<open>pos\<close>. Its \<^verbatim>\<open>buflist\<close> of
  pending pieces is joined into \<^verbatim>\<open>buf\<close> before every read of the content, so the model
  keeps the joined content only. A closed buffer is never kept in the table of open
  files (\<^verbatim>\<open>close()\<close> is always followed by \<^verbatim>\<open>del\<close>), so \<^verbatim>\<open>closed\<close> is left out.
\<close>

record StringIO =
  sbuf :: string
  slen :: nat
  spos :: nat

definition NUL :: char where
  "NUL = CHR 0x00"

text \<open>\<^verbatim>\<open>StringIO(buf)\<close>: the content, its length, position 0.\<close>

definition StringIO_new :: "string \<Rightarrow> StringIO" where
  "StringIO_new s = \<lparr>sbuf = s, slen = length s, spos = 0\<rparr>"

definition getvalue :: "StringIO \<Rightarrow> string" where
  "getvalue f = sbuf f"

text \<open>\<^verbatim>\<open>seek(pos)\<close> with the default mode 0: \<^verbatim>\<open>self.pos = max(0, pos)\<close>.\<close>

definition seek :: "StringIO \<Rightarrow> int \<Rightarrow> StringIO" where
  "seek f p = f\<lparr>spos := nat (max 0 p)\<rparr>"

text \<open>
  \<^verbatim>\<open>read(n)\<close>: \<^verbatim>\<open>newpos = self.len\<close> if \<^verbatim>\<open>n < 0\<close>, else
  \<^verbatim>\<open>min(self.pos + n, self.len)\<close>; the result is the slice \<^verbatim>\<open>buf[pos:newpos]\<close>
  (empty when \<^verbatim>\<open>newpos\<close> is before \<^verbatim>\<open>pos\<close>).
\<close>

definition sio_read :: "StringIO \<Rightarrow> int \<Rightarrow> string \<times> StringIO" where
  "sio_read f n =
     (let newpos = (if n < 0 then slen f else min (spos f + nat n) (slen f))
      in (take (newpos - spos f) (drop (spos f) (sbuf f)), f\<lparr>spos := newpos\<rparr>))"

text \<open>
  \<^verbatim>\<open>write(s)\<close>: nothing at all for an empty \<^verbatim>\<open>s\<close>; at the end of the buffer the bytes
  are appended; past the end the gap is first filled with NUL bytes; inside the buffer
  the bytes replace \<^verbatim>\<open>buf[spos:newpos]\<close>, and the length grows when they reach past it.
\<close>

definition sio_write :: "StringIO \<Rightarrow> string \<Rightarrow> StringIO" where
  "sio_write f s =
     (if s = [] then f
      else let p = spos f; l = slen f; newpos = p + length s in
        if p = l then f\<lparr>sbuf := sbuf f @ s, slen := newpos, spos := newpos\<rparr>
        else if p > l then
          f\<lparr>sbuf := sbuf f @ replicate (p - l) NUL @ s, slen := newpos, spos := newpos\<rparr>
        else
          f\<lparr>sbuf := take p (sbuf f) @ s @ drop newpos (sbuf f),
            slen := max l newpos, spos := newpos\<rparr>)"

text \<open>
  \<^verbatim>\<open>truncate(size)\<close>: a negative size raises \<^verbatim>\<open>IOError\<close>; otherwise the position is
  pulled back to \<^verbatim>\<open>size\<close> when it lies beyond, \<^verbatim>\<open>buf = getvalue()[:size]\<close> and
  \<^verbatim>\<open>len = size\<close> (the content is not padded when \<^verbatim>\<open>size\<close> exceeds it).
\<close>

definition sio_truncate :: "StringIO \<Rightarrow> int \<Rightarrow> exn + StringIO" where
  "sio_truncate f n =
     (if n < 0 then Inl IOError
      else Inr (f\<lparr>sbuf := take (nat n) (sbuf f), slen := nat n,
                  spos := (if nat n < spos f then nat n else spos f)\<rparr>))"

section \<open>\<^verbatim>\<open>OerpFS\<close>: the table of open buffers\<close>

text \<open>
  \<^verbatim>\<open>self.files\<close> is a dictionary from paths to buffers. The subclasses extend the
  record, so a handler of the base class runs on every subclass, as an inherited
  method does.
\<close>

record OerpFS =
  files :: "string \<rightharpoonup> StringIO"

definition OerpFS_open :: "'a OerpFS_scheme \<Rightarrow> string \<Rightarrow> (exn + unit) \<times> 'a OerpFS_scheme" where
  "OerpFS_open s path = (Inr (), s\<lparr>files := (files s)(path \<mapsto> StringIO_new [])\<rparr>)"

text \<open>
  \<^verbatim>\<open>read\<close> calls \<^verbatim>\<open>self.open\<close>, which is the subclass's method when the subclass
  overrides it: the method is the parameter \<open>open_m\<close>. A buffer that is still missing
  after \<^verbatim>\<open>self.open\<close> makes \<^verbatim>\<open>self.files[path]\<close> a \<^verbatim>\<open>KeyError\<close>.
\<close>

definition OerpFS_read ::
  "('a OerpFS_scheme \<Rightarrow> string \<Rightarrow> (exn + unit) \<times> 'a OerpFS_scheme) \<Rightarrow>
   'a OerpFS_scheme \<Rightarrow> string \<Rightarrow> int \<Rightarrow> int \<Rightarrow> (exn + string) \<times> 'a OerpFS_scheme" where
  "OerpFS_read open_m s path n offset =
     (let (r, s1) = (if files s path = None then open_m s path else (Inr (), s)) in
      case r of
        Inl e \<Rightarrow> (Inl e, s1)
      | Inr _ \<Rightarrow>
         (case files s1 path of
            None \<Rightarrow> (Inl KeyError, s1)
          | Some f \<Rightarrow>
              let (bs, f') = sio_read (seek f offset) n
              in (Inr bs, s1\<lparr>files := (files s1)(path \<mapsto> f')\<rparr>)))"

definition OerpFS_create :: "'a OerpFS_scheme \<Rightarrow> string \<Rightarrow> (exn + unit) \<times> 'a OerpFS_scheme" where
  "OerpFS_create s path = (Inr (), s\<lparr>files := (files s)(path \<mapsto> StringIO_new [])\<rparr>)"

definition OerpFS_write ::
  "'a OerpFS_scheme \<Rightarrow> string \<Rightarrow> string \<Rightarrow> int \<Rightarrow> (exn + int reply) \<times> 'a OerpFS_scheme" where
  "OerpFS_write s path bs offset =
     (case files s path of
        None \<Rightarrow> (Inr NoEnt, s)
      | Some f \<Rightarrow>
          (Inr (Ok (int (length bs))),
           s\<lparr>files := (files s)(path \<mapsto> sio_write (seek f offset) bs)\<rparr>))"

definition OerpFS_truncate ::
  "'a OerpFS_scheme \<Rightarrow> string \<Rightarrow> int \<Rightarrow> (exn + unit) \<times> 'a OerpFS_scheme" where
  "OerpFS_truncate s path n =
     (case files s path of
        None \<Rightarrow> (Inl KeyError, s)
      | Some f \<Rightarrow>
          (case sio_truncate f n of
             Inl e \<Rightarrow> (Inl e, s)
           | Inr f' \<Rightarrow> (Inr (), s\<lparr>files := (files s)(path \<mapsto> f')\<rparr>)))"

definition OerpFS_release :: "'a OerpFS_scheme \<Rightarrow> string \<Rightarrow> (exn + unit) \<times> 'a OerpFS_scheme" where
  "OerpFS_release s path =
     (case files s path of
        None \<Rightarrow> (Inl KeyError, s)
      | Some f \<Rightarrow> (Inr (), s\<lparr>files := (files s)(path := None)\<rparr>))"


text \<open>
  A buffer is consistent when the recorded length is the length of its content. Every
  buffer made by \<^verbatim>\<open>StringIO(...)\<close> is, and \<^verbatim>\<open>seek\<close>, \<^verbatim>\<open>read\<close> and \<^verbatim>\<open>write\<close> keep it so;
  only a \<^verbatim>\<open>truncate\<close> to a size beyond the content records a length that the content
  does not have.
\<close>

definition consistent :: "StringIO \<Rightarrow> bool" where
  "consistent f = (slen f = length (sbuf f))"

text \<open>
  In every buffer the operations above can produce, the recorded length is at least the
  length of the content.
\<close>

definition valid_buffer :: "StringIO \<Rightarrow> bool" where
  "valid_buffer f = (length (sbuf f) \<le> slen f)"

section \<open>Builtins and standard library used by the subclasses\<close>

subsection \<open>\<^verbatim>\<open>str.split\<close>, \<^verbatim>\<open>str.replace\<close>, \<^verbatim>\<open>int\<close>\<close>

text \<open>
  \<^verbatim>\<open>s.split(sep)\<close> for a one-character separator: the pieces between the separators,
  empty pieces included, so the result is never empty.
\<close>

fun py_split :: "char \<Rightarrow> string \<Rightarrow> string list" where
  "py_split sep [] = [[]]"
| "py_split sep (c # cs) =
     (if c = sep then [] # py_split sep cs
      else (case py_split sep cs of
              [] \<Rightarrow> [[c]]
            | w # ws \<Rightarrow> (c # w) # ws))"

text \<open>
  \<^verbatim>\<open>s.replace(old, new)\<close> for a non-empty \<^verbatim>\<open>old\<close>: every occurrence, found from the
  left and not overlapping, is replaced.
\<close>

function py_replace :: "string \<Rightarrow> string \<Rightarrow> string \<Rightarrow> string" where
  "py_replace old new s =
     (if s = [] \<or> old = [] then s
      else if take (length old) s = old then new @ py_replace old new (drop (length old) s)
      else hd s # py_replace old new (tl s))"
  by pat_completeness auto
termination
  by (relation "measure (\<lambda>(old, new, s). length s)") auto

declare py_replace.simps [simp del]

text \<open>
  \<^verbatim>\<open>int(s)\<close> of a byte string, base 10: white space around the literal is skipped (in
  Python 2 also between the sign and the digits), the sign is optional, and at least
  one digit must follow and nothing else; every other string raises \<^verbatim>\<open>ValueError\<close>.
\<close>

definition isspace :: "char \<Rightarrow> bool" where
  "isspace c = (c \<in> set [CHR '' '', CHR 0x09, CHR 0x0A, CHR 0x0B, CHR 0x0C, CHR 0x0D])"

definition isdigit :: "char \<Rightarrow> bool" where
  "isdigit c = (48 \<le> (of_char c :: nat) \<and> (of_char c :: nat) \<le> 57)"

definition digits_value :: "string \<Rightarrow> nat" where
  "digits_value ds = foldl (\<lambda>acc d. 10 * acc + (of_char d - 48)) 0 ds"

definition py_int :: "string \<Rightarrow> exn + int" where
  "py_int s =
     (let t = rev (dropWhile isspace (rev (dropWhile isspace s)));
          neg = (t \<noteq> [] \<and> hd t = CHR ''-'');
          signed = (t \<noteq> [] \<and> (hd t = CHR ''-'' \<or> hd t = CHR ''+''));
          ds = (if signed then dropWhile isspace (tl t) else t)
      in if ds \<noteq> [] \<and> list_all isdigit ds
         then Inr (if neg then - int (digits_value ds) else int (digits_value ds))
         else Inl ValueError)"

subsection \<open>\<^verbatim>\<open>base64.b64encode\<close> and \<^verbatim>\<open>base64.b64decode\<close>\<close>

definition table_b2a_base64 :: string where
  "table_b2a_base64 = ''ABCDEFGHIJKLMNOPQRSTUVWXYZabcdefghijklmnopqrstuvwxyz0123456789+/''"

definition BASE64_PAD :: char where
  "BASE64_PAD = CHR ''=''"

definition b2a :: "nat \<Rightarrow> char" where
  "b2a n = table_b2a_base64 ! n"

text \<open>
  \<^verbatim>\<open>b64encode(s)\<close> is \<^verbatim>\<open>binascii.b2a_base64(s)\<close> without its final newline: each group
  of three bytes gives four characters of the table, a last group of two bytes gives
  three characters and one pad, a last single byte gives two characters and two pads.
\<close>

fun b64encode :: "string \<Rightarrow> string" where
  "b64encode (a # b # c # rest) =
     (let x = of_char a; y = of_char b; z = of_char c in
      [b2a (x div 4), b2a ((x mod 4) * 16 + y div 16),
       b2a ((y mod 16) * 4 + z div 64), b2a (z mod 64)] @ b64encode rest)"
| "b64encode [a, b] =
     (let x = of_char a; y = of_char b in
      [b2a (x div 4), b2a ((x mod 4) * 16 + y div 16), b2a ((y mod 16) * 4), BASE64_PAD])"
| "b64encode [a] =
     (let x = of_char a in [b2a (x div 4), b2a ((x mod 4) * 16), BASE64_PAD, BASE64_PAD])"
| "b64encode [] = []"

text \<open>
  The decoding table of \<^verbatim>\<open>binascii\<close>: the position of a character in the encoding
  table, 0 for the pad; \<open>None\<close> is the table's entry -1.
\<close>

definition table_a2b_base64 :: "char \<Rightarrow> nat option" where
  "table_a2b_base64 c =
     (if c = BASE64_PAD then Some 0 else map_of (zip table_b2a_base64 [0..<64]) c)"

text \<open>\<^verbatim>\<open>binascii_find_valid(s, slen, num)\<close>: the \<open>(num+1)\<close>-th valid character of \<open>s\<close>.\<close>

fun binascii_find_valid :: "string \<Rightarrow> nat \<Rightarrow> char option" where
  "binascii_find_valid [] num = None"
| "binascii_find_valid (c # s) num =
     (if (of_char c :: nat) \<le> 0x7f \<and> table_a2b_base64 c \<noteq> None
      then (if num = 0 then Some c else binascii_find_valid s (num - 1))
      else binascii_find_valid s num)"

text \<open>
  The loop of \<^verbatim>\<open>binascii.a2b_base64\<close> over the input, with its variables
  \<^verbatim>\<open>quad_pos\<close>, \<^verbatim>\<open>leftchar\<close>, \<^verbatim>\<open>leftbits\<close> and the output so far. Bytes above 0x7f,
  CR, LF, space and characters outside the table are skipped; a pad is skipped unless
  it stands where a pad may end the data, and then ends the loop with
  \<^verbatim>\<open>leftbits = 0\<close>. A table character is shifted in (\<^verbatim>\<open>(leftchar << 6) | this_ch\<close>,
  here \<open>leftchar * 64 + v\<close>), and once eight bits are there the byte
  \<^verbatim>\<open>(leftchar >> leftbits) & 0xff\<close> is written and masked away. The result is the
  final \<^verbatim>\<open>leftbits\<close> and the output.
\<close>

fun a2b_loop :: "string \<Rightarrow> nat \<Rightarrow> nat \<Rightarrow> nat \<Rightarrow> string \<Rightarrow> nat \<times> string" where
  "a2b_loop [] quad_pos leftchar leftbits out = (leftbits, out)"
| "a2b_loop (c # s) quad_pos leftchar leftbits out =
     (if (of_char c :: nat) > 0x7f \<or> c = CHR 0x0D \<or> c = CHR 0x0A \<or> c = CHR '' ''
      then a2b_loop s quad_pos leftchar leftbits out
      else if c = BASE64_PAD then
        (if quad_pos < 2 \<or>
            (quad_pos = 2 \<and> binascii_find_valid (c # s) 1 \<noteq> Some BASE64_PAD)
         then a2b_loop s quad_pos leftchar leftbits out
         else (0, out))
      else
        (case table_a2b_base64 c of
           None \<Rightarrow> a2b_loop s quad_pos leftchar leftbits out
         | Some v \<Rightarrow>
             (let quad_pos' = (quad_pos + 1) mod 4;
                  leftchar' = leftchar * 64 + v;
                  leftbits' = leftbits + 6
              in if leftbits' \<ge> 8
                 then a2b_loop s quad_pos' (leftchar' mod 2 ^ (leftbits' - 8)) (leftbits' - 8)
                        (out @ [char_of ((leftchar' div 2 ^ (leftbits' - 8)) mod 256)])
                 else a2b_loop s quad_pos' leftchar' leftbits' out)))"

text \<open>
  \<^verbatim>\<open>b64decode(s)\<close>: bits left over at the end are \<^verbatim>\<open>binascii.Error\<close> ("Incorrect
  padding"), which \<^verbatim>\<open>b64decode\<close> re-raises as \<^verbatim>\<open>TypeError\<close>.
\<close>

definition b64decode :: "string \<Rightarrow> exn + string" where
  "b64decode s =
     (case a2b_loop s 0 0 0 [] of
        (leftbits, out) \<Rightarrow> if leftbits \<noteq> 0 then Inl TypeError else Inr out)"

subsection \<open>\<^verbatim>\<open>fuse.Stat\<close> and the mode bits of \<^verbatim>\<open>stat\<close>\<close>

text \<open>
  A fresh \<^verbatim>\<open>fuse.Stat()\<close> has size 0; every handler assigns \<^verbatim>\<open>st_mode\<close> and
  \<^verbatim>\<open>st_nlink\<close> before it returns the object. The permission literals of the source
  are octal: \<^verbatim>\<open>0600\<close> is 384, \<^verbatim>\<open>0200\<close> is 128, \<^verbatim>\<open>0000\<close> is 0.
\<close>

record Stat =
  st_mode :: int
  st_nlink :: int
  st_size :: int

definition S_IFDIR :: int where
  "S_IFDIR = 16384"

definition S_IFREG :: int where
  "S_IFREG = 32768"

text \<open>
  The readers of the \<^verbatim>\<open>stat\<close> module: \<^verbatim>\<open>S_IFMT(mode) = mode & 0170000\<close>,
  \<^verbatim>\<open>S_IMODE(mode) = mode & 07777\<close>, and the tests on the file type.
\<close>

definition S_IFMT :: "int \<Rightarrow> int" where
  "S_IFMT m = m AND 61440"

definition S_IMODE :: "int \<Rightarrow> int" where
  "S_IMODE m = m AND 4095"

definition S_ISDIR :: "int \<Rightarrow> bool" where
  "S_ISDIR m = (S_IFMT m = S_IFDIR)"

definition S_ISREG :: "int \<Rightarrow> bool" where
  "S_ISREG m = (S_IFMT m = S_IFREG)"

section \<open>\<^verbatim>\<open>OerpFSModel\<close>: attachments of records\<close>

subsection \<open>The record store behind \<^verbatim>\<open>pool.get(...)\<close>\<close>

text \<open>
  The store is the OpenERP database the handlers reach through
  \<^verbatim>\<open>pooler.get_db_and_pool\<close>: the model names of \<^verbatim>\<open>ir.model\<close>, the ids of the
  records of each model, and the table \<^verbatim>\<open>ir.attachment\<close> with its rows by id
  (\<open>next_id\<close> bounds the ids in use). \<^verbatim>\<open>search\<close> returns the ids of the rows that
  satisfy every condition of the domain, \<^verbatim>\<open>read\<close> returns the asked field of the rows
  with the given ids, \<^verbatim>\<open>write\<close> assigns the given fields in each of them.
\<close>

record attachment =
  att_type :: string
  res_model :: string
  res_id :: int
  name :: string
  datas :: "string option"
  datas_fname :: "string option"

record database =
  ir_model :: "string list"
  record_ids :: "string \<Rightarrow> int list"
  ir_attachment :: "nat \<rightharpoonup> attachment"
  next_id :: nat

definition search_attachment :: "database \<Rightarrow> string \<Rightarrow> int \<Rightarrow> string \<Rightarrow> nat list" where
  "search_attachment d m rid nm =
     filter (\<lambda>i. case ir_attachment d i of
                   None \<Rightarrow> False
                 | Some a \<Rightarrow> res_model a = m \<and> res_id a = rid \<and> name a = nm)
       [0..<next_id d]"

definition read_datas :: "database \<Rightarrow> nat list \<Rightarrow> string option list" where
  "read_datas d ids = map datas (List.map_filter (ir_attachment d) ids)"

definition write_attachment ::
  "database \<Rightarrow> nat list \<Rightarrow> (attachment \<Rightarrow> attachment) \<Rightarrow> database" where
  "write_attachment d ids vals =
     d\<lparr>ir_attachment :=
         (\<lambda>i. if i \<in> set ids then map_option vals (ir_attachment d i)
              else ir_attachment d i)\<rparr>"

text \<open>
  The handlers build the same search domain
  \<^verbatim>\<open>[('res_model', '=', paths[0]), ('res_id', '=', int(paths[1])), ('name', '=', paths[2])]\<close>
  from the segments of the path. Its three values are evaluated in this order, so a
  missing segment is an \<^verbatim>\<open>IndexError\<close> and a second segment that \<^verbatim>\<open>int\<close> rejects is
  a \<^verbatim>\<open>ValueError\<close>.
\<close>

definition attachment_domain :: "string list \<Rightarrow> exn + (string \<times> int \<times> string)" where
  "attachment_domain paths =
     (if length paths < 2 then Inl IndexError
      else case py_int (paths ! 1) of
             Inl e \<Rightarrow> Inl e
           | Inr rid \<Rightarrow>
               if length paths < 3 then Inl IndexError
               else Inr (paths ! 0, rid, paths ! 2))"

subsection \<open>The handlers\<close>

record OerpFSModel = OerpFS +
  db :: database

text \<open>
  \<^verbatim>\<open>getattr\<close> reads the store and changes nothing, so it returns its outcome only.
  \<^verbatim>\<open>x and len(b64decode(x)) or 0\<close> is 0 for a payload that is absent or empty.
\<close>

definition OerpFSModel_getattr :: "'a OerpFSModel_scheme \<Rightarrow> string \<Rightarrow> exn + Stat reply" where
  "OerpFSModel_getattr s path =
     (let fakeStat = \<lparr>st_mode = S_IFDIR OR 384, st_nlink = 0, st_size = 0\<rparr> in
      if path = ''/'' then Inr (Ok fakeStat)
      else
        let paths = tl (py_split CHR ''/'' path) in
        if length paths > 3 then Inr NoEnt
        else if paths = [] then Inl IndexError
        else if paths ! 0 \<notin> set (ir_model (db s)) then Inr NoEnt
        else if length paths = 1 then Inr (Ok fakeStat)
        else
          (case py_int (paths ! 1) of
             Inl e \<Rightarrow> Inl e
           | Inr rid \<Rightarrow>
               if rid \<notin> set (record_ids (db s) (paths ! 0)) then Inr NoEnt
               else if length paths = 2 then Inr (Ok fakeStat)
               else
                 let attachment_ids = search_attachment (db s) (paths ! 0) rid (paths ! 2) in
                 if attachment_ids = [] then Inr NoEnt
                 else
                   (case read_datas (db s) attachment_ids of
                      [] \<Rightarrow> Inl IndexError
                    | d # _ \<Rightarrow>
                        (case d of
                           None \<Rightarrow>
                             Inr (Ok \<lparr>st_mode = S_IFREG OR 384, st_nlink = 2, st_size = 0\<rparr>)
                         | Some enc \<Rightarrow>
                             if enc = [] then
                               Inr (Ok \<lparr>st_mode = S_IFREG OR 384, st_nlink = 2, st_size = 0\<rparr>)
                             else
                               (case b64decode enc of
                                  Inl e \<Rightarrow> Inl e
                                | Inr bs \<Rightarrow>
                                    Inr (Ok \<lparr>st_mode = S_IFREG OR 384, st_nlink = 2,
                                             st_size = int (length bs)\<rparr>))))))"

text \<open>
  \<^verbatim>\<open>open\<close>: the base class first stores an empty buffer; then the payload is fetched,
  and a payload that is there and not empty replaces the buffer by its decoding.
  \<^verbatim>\<open>attachment_data[0]\<close> on an empty result is an \<^verbatim>\<open>IndexError\<close>.
\<close>

definition OerpFSModel_open ::
  "'a OerpFSModel_scheme \<Rightarrow> string \<Rightarrow> (exn + unit) \<times> 'a OerpFSModel_scheme" where
  "OerpFSModel_open s path =
     (let s1 = snd (OerpFS_open s path);
          paths = tl (py_split CHR ''/'' path)
      in case attachment_domain paths of
           Inl e \<Rightarrow> (Inl e, s1)
         | Inr (m, rid, nm) \<Rightarrow>
             (case read_datas (db s1) (search_attachment (db s1) m rid nm) of
                [] \<Rightarrow> (Inl IndexError, s1)
              | d # _ \<Rightarrow>
                  (case d of
                     None \<Rightarrow> (Inr (), s1)
                   | Some enc \<Rightarrow>
                       if enc = [] then (Inr (), s1)
                       else
                         (case b64decode enc of
                            Inl e \<Rightarrow> (Inl e, s1)
                          | Inr bs \<Rightarrow>
                              (Inr (), s1\<lparr>files := (files s1)(path \<mapsto> StringIO_new bs)\<rparr>)))))"

text \<open>
  \<^verbatim>\<open>flush\<close>: the content of the buffer (\<^verbatim>\<open>KeyError\<close> without one) is encoded and
  written, with the coordinates of the path, into every row the search finds. The
  integer column \<^verbatim>\<open>res_id\<close> receives the string \<^verbatim>\<open>paths[1]\<close>, which the store converts
  with \<^verbatim>\<open>int\<close>: the value the search has just computed.
\<close>

definition OerpFSModel_flush ::
  "'a OerpFSModel_scheme \<Rightarrow> string \<Rightarrow> (exn + unit) \<times> 'a OerpFSModel_scheme" where
  "OerpFSModel_flush s path =
     (case files s path of
        None \<Rightarrow> (Inl KeyError, s)
      | Some f \<Rightarrow>
          (let paths = tl (py_split CHR ''/'' path) in
           case attachment_domain paths of
             Inl e \<Rightarrow> (Inl e, s)
           | Inr (m, rid, nm) \<Rightarrow>
               (let attachment_ids = search_attachment (db s) m rid nm;
                    vals = (\<lambda>a. a\<lparr>att_type := ''binary'', datas := Some (b64encode (getvalue f)),
                                  res_model := m, res_id := rid, name := nm,
                                  datas_fname := Some nm\<rparr>)
                in (Inr (), s\<lparr>db := write_attachment (db s) attachment_ids vals\<rparr>))))"

section \<open>\<^verbatim>\<open>OerpFSCsvImport\<close>: import on release\<close>

text \<open>
  What \<^verbatim>\<open>release\<close> calls outside this repository is a parameter: \<^verbatim>\<open>csv.reader\<close> (the
  rows of the content, or \<^verbatim>\<open>csv.Error\<close>), the registry \<^verbatim>\<open>pool.get\<close> (\<open>pool_has\<close>: whether
  it knows the model; \<^verbatim>\<open>None\<close> otherwise), the outcome of \<^verbatim>\<open>import_data\<close> for a call
  (\<open>None\<close>: it returns), and the \<^verbatim>\<open>flush\<close> that \<^verbatim>\<open>super(OerpFSCsvImport, self)\<close>
  resolves to, which \<^verbatim>\<open>OerpFS\<close> does not define. The calls of \<^verbatim>\<open>import_data\<close> are
  logged in the state, in order.
\<close>

record import_call =
  imp_model :: string
  imp_fields :: "string list"
  imp_datas :: "string list list"
  imp_mode :: string

record csv_env =
  csv_reader :: "string \<Rightarrow> exn + string list list"
  pool_has :: "string \<Rightarrow> bool"
  import_data :: "import_call \<Rightarrow> exn option"
  super_flush :: "string \<Rightarrow> exn + unit"

record OerpFSCsvImport = OerpFS +
  import_log :: "import_call list"


text \<open>
  \<^verbatim>\<open>release\<close>, statement by statement: the content of the buffer (\<^verbatim>\<open>KeyError\<close>
  without one); its rows; the model name \<^verbatim>\<open>path.replace('.csv', '')[1:]\<close>; the
  attribute \<^verbatim>\<open>import_data\<close> of \<^verbatim>\<open>pool.get(model)\<close> (\<^verbatim>\<open>AttributeError\<close> on \<^verbatim>\<open>None\<close>);
  \<^verbatim>\<open>lines[0]\<close> (\<^verbatim>\<open>IndexError\<close> without a row) and \<^verbatim>\<open>lines[1:]\<close>; the call. Only after
  the call has returned is the buffer deleted, and then the inherited \<^verbatim>\<open>flush\<close> runs.
\<close>

definition OerpFSCsvImport_release ::
  "csv_env \<Rightarrow> 'a OerpFSCsvImport_scheme \<Rightarrow> string \<Rightarrow>
   (exn + unit) \<times> 'a OerpFSCsvImport_scheme" where
  "OerpFSCsvImport_release env s path =
     (case files s path of
        None \<Rightarrow> (Inl KeyError, s)
      | Some f \<Rightarrow>
          (case csv_reader env (getvalue f) of
             Inl e \<Rightarrow> (Inl e, s)
           | Inr lines \<Rightarrow>
               (let model = drop 1 (py_replace ''.csv'' [] path) in
                if \<not> pool_has env model then (Inl AttributeError, s)
                else
                  (case lines of
                     [] \<Rightarrow> (Inl IndexError, s)
                   | header # rows \<Rightarrow>
                       (let call = \<lparr>imp_model = model, imp_fields = header,
                                     imp_datas = rows, imp_mode = ''init''\<rparr>;
                            s1 = s\<lparr>import_log := import_log s @ [call]\<rparr>
                        in case import_data env call of
                             Some e \<Rightarrow> (Inl e, s1)
                           | None \<Rightarrow>
                               (super_flush env path,
                                s1\<lparr>files := (files s1)(path := None)\<rparr>))))))"

section \<open>\<^verbatim>\<open>OerpFSDocument\<close>: the document tree\<close>

text \<open>
  The tree is the \<^verbatim>\<open>document\<close> module's: \<^verbatim>\<open>get_node_context(...).get_uri(segments)\<close> is
  the parameter \<open>get_uri\<close>, which gives a node or nothing; a node has its kind
  \<^verbatim>\<open>our_type\<close> and the length \<^verbatim>\<open>get_data_len\<close> reports.
\<close>

record node =
  our_type :: string
  get_data_len :: int

definition OerpFSDocument_get_node :: "(string list \<Rightarrow> node option) \<Rightarrow> string \<Rightarrow> node option" where
  "OerpFSDocument_get_node get_uri path =
     get_uri (tl (py_split CHR ''/'' (if path = ''/'' then [] else path)))"

definition OerpFSDocument_getattr ::
  "(string list \<Rightarrow> node option) \<Rightarrow> string \<Rightarrow> exn + Stat reply" where
  "OerpFSDocument_getattr get_uri path =
     (case OerpFSDocument_get_node get_uri path of
        None \<Rightarrow> Inr NoEnt
      | Some node \<Rightarrow>
          if our_type node \<in> set [''database'', ''collection'']
            then Inr (Ok \<lparr>st_mode = S_IFDIR OR 384, st_nlink = 0, st_size = 0\<rparr>)
          else if our_type node = ''file''
            then Inr (Ok \<lparr>st_mode = S_IFREG OR 384, st_nlink = 0,
                          st_size = get_data_len node\<rparr>)
          else Inr (Ok \<lparr>st_mode = S_IFREG OR 0, st_nlink = 0, st_size = 0\<rparr>))"

section \<open>Example states\<close>

text \<open>
  A store with one model, one record of it, the attachment \<^verbatim>\<open>doc.txt\<close> of that record
  (payload \<^verbatim>\<open>hello\<close>) and the attachment \<^verbatim>\<open>lost.txt\<close>, whose record 9 does not exist.
\<close>

definition example_db :: database where
  "example_db =
     \<lparr>ir_model = [''res.partner''],
      record_ids = (\<lambda>m. if m = ''res.partner'' then [7] else []),
      ir_attachment =
        [0 \<mapsto> \<lparr>att_type = ''binary'', res_model = ''res.partner'', res_id = 7,
                name = ''doc.txt'', datas = Some ''aGVsbG8='',
                datas_fname = Some ''doc.txt''\<rparr>,
         1 \<mapsto> \<lparr>att_type = ''binary'', res_model = ''res.partner'', res_id = 9,
                name = ''lost.txt'', datas = Some ''aGk='',
                datas_fname = Some ''lost.txt''\<rparr>],
      next_id = 2\<rparr>"

definition example_fs :: OerpFSModel where
  "example_fs = \<lparr>files = Map.empty, db = example_db\<rparr>"

text \<open>The attachment mount after \<^verbatim>\<open>open('/res.partner/7/doc.txt')\<close>.\<close>

definition opened_fs :: OerpFSModel where
  "opened_fs = snd (OerpFSModel_open example_fs ''/res.partner/7/doc.txt'')"

text \<open>
  \<^verbatim>\<open>csv.reader\<close> on content without quotes and carriage returns: one row per line,
  the fields between the commas, an empty list for an empty line.
\<close>

definition unquoted_csv_reader :: "string \<Rightarrow> exn + string list list" where
  "unquoted_csv_reader s =
     (let ls = py_split CHR 0x0A s;
          ls' = (if last ls = [] then butlast ls else ls)
      in Inr (map (\<lambda>l. if l = [] then [] else py_split CHR '','' l) ls'))"

text \<open>
  An environment whose import returns, one whose import raises; in both the inherited
  \<^verbatim>\<open>flush\<close> is missing, so the call raises \<^verbatim>\<open>AttributeError\<close>.
\<close>

definition example_env :: csv_env where
  "example_env =
     \<lparr>csv_reader = unquoted_csv_reader,
      pool_has = (\<lambda>m. m \<in> set [''contact'', ''a.b'']),
      import_data = (\<lambda>c. None),
      super_flush = (\<lambda>p. Inl AttributeError)\<rparr>"


text \<open>The CSV mount after \<^verbatim>\<open>create(path)\<close> and \<^verbatim>\<open>write(path, content, 0)\<close>.\<close>

definition csv_fs :: "string \<Rightarrow> string \<Rightarrow> OerpFSCsvImport" where
  "csv_fs path content =
     snd (OerpFS_write (snd (OerpFS_create \<lparr>files = Map.empty, import_log = []\<rparr> path))
            path content 0)"

text \<open>A buffer created and then enlarged by \<^verbatim>\<open>truncate(path, 5)\<close>.\<close>

definition truncated_fs :: OerpFS where
  "truncated_fs =
     snd (OerpFS_truncate (snd (OerpFS_create \<lparr>files = Map.empty\<rparr> ''/f'')) ''/f'' 5)"

text \<open>A document tree with the root, the collection \<^verbatim>\<open>docs\<close> and a file of 12 bytes in it.\<close>

definition example_tree :: "string list \<Rightarrow> node option" where
  "example_tree segments =
     (if segments = [] then Some \<lparr>our_type = ''database'', get_data_len = 0\<rparr>
      else if segments = [''docs''] then Some \<lparr>our_type = ''collection'', get_data_len = 0\<rparr>
      else if segments = [''docs'', ''a.txt''] then Some \<lparr>our_type = ''file'', get_data_len = 12\<rparr>
      else if segments = [''docs'', ''link''] then Some \<lparr>our_type = ''content'', get_data_len = 0\<rparr>
      else None)"

section \<open>The buffer table\<close>

lemma seek_fields [simp]:
  "sbuf (seek f p) = sbuf f" "slen (seek f p) = slen f" "spos (seek f p) = nat p"
  by (simp_all add: seek_def)

lemma consistent_new: "consistent (StringIO_new s)"
  by (simp add: consistent_def StringIO_new_def)

lemma consistent_write: "consistent f \<Longrightarrow> consistent (sio_write (seek f p) s)"
  by (auto simp: consistent_def sio_write_def Let_def)

lemma consistent_read: "consistent f \<Longrightarrow> consistent (snd (sio_read (seek f p) n))"
  by (simp add: consistent_def sio_read_def Let_def)

lemma consistent_valid: "consistent f \<Longrightarrow> valid_buffer f"
  by (simp add: consistent_def valid_buffer_def)

lemma valid_new: "valid_buffer (StringIO_new s)"
  by (simp add: valid_buffer_def StringIO_new_def)

lemma valid_write: "valid_buffer f \<Longrightarrow> valid_buffer (sio_write (seek f p) s)"
  by (auto simp: valid_buffer_def sio_write_def Let_def)

lemma valid_read: "valid_buffer f \<Longrightarrow> valid_buffer (snd (sio_read (seek f p) n))"
  by (simp add: valid_buffer_def sio_read_def Let_def)

lemma valid_truncate: "valid_buffer f \<Longrightarrow> sio_truncate f n = Inr f' \<Longrightarrow> valid_buffer f'"
  by (auto simp: valid_buffer_def sio_truncate_def split: if_splits)

lemma getvalue_write_at:
  assumes "consistent f" and "bs \<noteq> []"
  shows "getvalue (sio_write (seek f offset) bs) =
           take (nat offset) (sbuf f @ replicate (nat offset - length (sbuf f)) NUL)
             @ bs @ drop (nat offset + length bs) (sbuf f)"
  using assms by (auto simp: consistent_def sio_write_def getvalue_def Let_def)

lemma read_valid_buffer:
  assumes "valid_buffer f" and "0 \<le> n"
  shows "fst (sio_read (seek f offset) n) = take (nat n) (drop (nat offset) (sbuf f))"
  using assms by (auto simp: valid_buffer_def sio_read_def Let_def min_def)

text \<open>
  Claim C9. \<^verbatim>\<open>truncate\<close> on a path with no live buffer raises \<^verbatim>\<open>KeyError\<close> (the failed
  lookup \<^verbatim>\<open>self.files[path]\<close>) and leaves the table as it was, where \<^verbatim>\<open>write\<close> on the
  same path returns \<^verbatim>\<open>-ENOENT\<close>: the guard of \<^verbatim>\<open>write\<close> is absent from \<^verbatim>\<open>truncate\<close>.
\<close>

theorem truncate_without_buffer_raises:
  "files s path = None \<Longrightarrow>
     OerpFS_truncate s path n = (Inl KeyError, s) \<and>
     OerpFS_write s path bs offset = (Inr NoEnt, s)"
  by (simp add: OerpFS_truncate_def OerpFS_write_def)

theorem truncate_without_buffer_raises_witness:
  "files \<lparr>files = Map.empty\<rparr> ''/a.csv'' = None \<and>
   OerpFS_truncate \<lparr>files = Map.empty\<rparr> ''/a.csv'' 4 = (Inl KeyError, \<lparr>files = Map.empty\<rparr>) \<and>
   OerpFS_write \<lparr>files = Map.empty\<rparr> ''/a.csv'' ''xy'' 0 = (Inr NoEnt, \<lparr>files = Map.empty\<rparr>)"
  using truncate_without_buffer_raises [of "\<lparr>files = Map.empty\<rparr>" "''/a.csv''" 4 "''xy''" 0]
  by simp

text \<open>
  What \<^verbatim>\<open>write\<close> does on a path with a live buffer. It always returns the number of
  bytes supplied and touches no other path. When the buffer is consistent, its content
  afterwards has the bytes at the offset: the old content before the offset (extended
  with NUL bytes up to it), the bytes, and the old content behind them; an empty write
  leaves the content as it is.
\<close>

lemma write_at_offset:
  "(files s path = None \<longrightarrow> OerpFS_write s path bs offset = (Inr NoEnt, s)) \<and>
   (\<forall>f. files s path = Some f \<longrightarrow>
      fst (OerpFS_write s path bs offset) = Inr (Ok (int (length bs))) \<and>
      (\<forall>q. q \<noteq> path \<longrightarrow> files (snd (OerpFS_write s path bs offset)) q = files s q) \<and>
      (consistent f \<longrightarrow>
         map_option getvalue (files (snd (OerpFS_write s path bs offset)) path) =
           Some (if bs = [] then sbuf f
                 else take (nat offset) (sbuf f @ replicate (nat offset - length (sbuf f)) NUL)
                        @ bs @ drop (nat offset + length bs) (sbuf f))))"
  by (auto simp: OerpFS_write_def getvalue_write_at) (simp add: sio_write_def getvalue_def)

lemma write_at_offset_example:
  "fst (OerpFS_write (snd (OerpFS_create \<lparr>files = Map.empty\<rparr> ''/f'')) ''/f'' ''ab'' 3)
     = Inr (Ok 2) \<and>
   map_option getvalue
     (files (snd (OerpFS_write (snd (OerpFS_create \<lparr>files = Map.empty\<rparr> ''/f'')) ''/f'' ''ab'' 3))
        ''/f'')
     = Some [NUL, NUL, NUL, CHR ''a'', CHR ''b'']"
  using write_at_offset [of "snd (OerpFS_create \<lparr>files = Map.empty\<rparr> ''/f'')" "''/f''" "''ab''" 3]
  by (simp add: OerpFS_create_def StringIO_new_def consistent_def numeral_3_eq_3)

text \<open>
  Claim C6 at its failing input. After \<^verbatim>\<open>create('/f')\<close> and \<^verbatim>\<open>truncate('/f', 5)\<close> the
  buffer records the length 5 over an empty content. \<^verbatim>\<open>write('/f', 'ab', 5)\<close> returns 2,
  the number of bytes supplied, but \<^verbatim>\<open>seek(5)\<close> followed by \<^verbatim>\<open>write\<close> appends at the
  recorded end of the empty content: the content becomes \<^verbatim>\<open>ab\<close>, the bytes stand at
  offset 0 and not at offset 5, and a \<^verbatim>\<open>read\<close> of two bytes at offset 5 returns nothing.
\<close>

theorem write_after_truncate_misplaces_bytes:
  "files truncated_fs ''/f'' = Some \<lparr>sbuf = [], slen = 5, spos = 0\<rparr> \<and>
   fst (OerpFS_write truncated_fs ''/f'' ''ab'' 5) = Inr (Ok 2) \<and>
   map_option getvalue (files (snd (OerpFS_write truncated_fs ''/f'' ''ab'' 5)) ''/f'')
     = Some ''ab'' \<and>
   fst (OerpFS_read OerpFS_open (snd (OerpFS_write truncated_fs ''/f'' ''ab'' 5)) ''/f'' 2 5)
     = Inr []"
  by (simp add: truncated_fs_def OerpFS_create_def OerpFS_truncate_def OerpFS_write_def
      OerpFS_read_def sio_truncate_def StringIO_new_def sio_write_def sio_read_def
      seek_def getvalue_def Let_def)

section \<open>The document tree\<close>

text \<open>
  Claim C8. On every path that resolves to a node, \<^verbatim>\<open>getattr\<close> of the document tree
  returns an attribute record and never an error: a directory with the permission 0600
  when the kind is \<^verbatim>\<open>database\<close> or \<^verbatim>\<open>collection\<close>; a regular file with the permission
  0600 and the node's reported length as its size when the kind is \<^verbatim>\<open>file\<close>; a regular
  file with no permission at all for every other kind.
\<close>

theorem document_getattr_by_kind:
  assumes "OerpFSDocument_get_node get_uri path = Some node"
  shows "\<exists>st. OerpFSDocument_getattr get_uri path = Inr (Ok st) \<and>
     (if our_type node = ''database'' \<or> our_type node = ''collection''
        then S_ISDIR (st_mode st) \<and> S_IMODE (st_mode st) = 384
      else if our_type node = ''file''
        then S_ISREG (st_mode st) \<and> S_IMODE (st_mode st) = 384 \<and>
             st_size st = get_data_len node
      else S_ISREG (st_mode st) \<and> S_IMODE (st_mode st) = 0)"
  using assms
  by (simp add: OerpFSDocument_getattr_def S_ISDIR_def S_ISREG_def S_IMODE_def S_IFMT_def
      S_IFDIR_def S_IFREG_def)

theorem document_getattr_by_kind_witness:
  "OerpFSDocument_get_node example_tree ''/docs/a.txt''
     = Some \<lparr>our_type = ''file'', get_data_len = 12\<rparr> \<and>
   (\<exists>st. OerpFSDocument_getattr example_tree ''/docs/a.txt'' = Inr (Ok st) \<and>
      S_ISREG (st_mode st) \<and> S_IMODE (st_mode st) = 384 \<and> st_size st = 12)"
proof -
  have 1: "OerpFSDocument_get_node example_tree ''/docs/a.txt''
             = Some \<lparr>our_type = ''file'', get_data_len = 12\<rparr>"
    by (simp add: OerpFSDocument_get_node_def example_tree_def)
  from document_getattr_by_kind [OF 1] 1 show ?thesis by simp
qed

section \<open>Base64: decoding what was encoded\<close>

text \<open>The arithmetic of regrouping three bytes into four groups of six bits.\<close>

lemma split4: "(x::nat) * 16 = x div 4 * 64 + x mod 4 * 16"
proof -
  have "x * 16 = (x div 4 * 4 + x mod 4) * 16" by simp
  also have "\<dots> = x div 4 * 64 + x mod 4 * 16" by (simp only: add_mult_distrib mult.assoc)
  finally show ?thesis .
qed

lemma split16: "(y::nat) * 4 = y div 16 * 64 + y mod 16 * 4"
proof -
  have "y * 4 = (y div 16 * 16 + y mod 16) * 4" by simp
  also have "\<dots> = y div 16 * 64 + y mod 16 * 4" by (simp only: add_mult_distrib mult.assoc)
  finally show ?thesis .
qed

lemma hi4: "(y::nat) < 256 \<Longrightarrow> y div 16 < 16"
  by (simp add: less_mult_imp_div_less)

lemma hi2: "(z::nat) < 256 \<Longrightarrow> z div 64 < 4"
  by (simp add: less_mult_imp_div_less)

lemma hi6: "(x::nat) < 256 \<Longrightarrow> x div 4 < 64"
  by (simp add: less_mult_imp_div_less)

lemma bytes2:
  fixes x y :: nat
  assumes "y < 256"
  shows "(x div 4 * 64 + (x mod 4 * 16 + y div 16)) div 16 = x"
    and "(x div 4 * 64 + (x mod 4 * 16 + y div 16)) mod 16 = y div 16"
proof -
  have e: "x div 4 * 64 + (x mod 4 * 16 + y div 16) = x * 16 + y div 16"
    using split4 [of x] by simp
  show "(x div 4 * 64 + (x mod 4 * 16 + y div 16)) div 16 = x"
    unfolding e using hi4 [OF assms] by simp
  show "(x div 4 * 64 + (x mod 4 * 16 + y div 16)) mod 16 = y div 16"
    unfolding e using hi4 [OF assms] by simp
qed

lemma bytes3:
  fixes y z :: nat
  assumes "z < 256"
  shows "(y div 16 * 64 + (y mod 16 * 4 + z div 64)) div 4 = y"
    and "(y div 16 * 64 + (y mod 16 * 4 + z div 64)) mod 4 = z div 64"
proof -
  have e: "y div 16 * 64 + (y mod 16 * 4 + z div 64) = y * 4 + z div 64"
    using split16 [of y] by simp
  show "(y div 16 * 64 + (y mod 16 * 4 + z div 64)) div 4 = y"
    unfolding e using hi2 [OF assms] by simp
  show "(y div 16 * 64 + (y mod 16 * 4 + z div 64)) mod 4 = z div 64"
    unfolding e using hi2 [OF assms] by simp
qed

lemma bytes4: "(z::nat) div 64 * 64 + z mod 64 = z"
  by simp

lemma bytes2_last:
  fixes x :: nat
  shows "(x div 4 * 64 + x mod 4 * 16) div 16 = x" "(x div 4 * 64 + x mod 4 * 16) mod 16 = 0"
  using split4 [of x] by simp_all

lemma bytes3_last:
  fixes y :: nat
  shows "(y div 16 * 64 + y mod 16 * 4) div 4 = y" "(y div 16 * 64 + y mod 16 * 4) mod 4 = 0"
  using split16 [of y] by simp_all

lemma sext2: "(y::nat) < 256 \<Longrightarrow> x mod 4 * 16 + y div 16 < 64"
proof -
  assume "y < 256"
  then have "y div 16 < 16" by (rule hi4)
  moreover have "x mod 4 < 4" by simp
  ultimately show ?thesis by linarith
qed

lemma sext3: "(z::nat) < 256 \<Longrightarrow> y mod 16 * 4 + z div 64 < 64"
proof -
  assume "z < 256"
  then have "z div 64 < 4" by (rule hi2)
  moreover have "y mod 16 < 16" by simp
  ultimately show ?thesis by linarith
qed

lemma sext2_last: "(x::nat) mod 4 * 16 < 64"
proof -
  have "x mod 4 < 4" by simp
  then show ?thesis by linarith
qed

lemma sext3_last: "(y::nat) mod 16 * 4 < 64"
proof -
  have "y mod 16 < 16" by simp
  then show ?thesis by linarith
qed

text \<open>The characters of the encoding table, and their entries in the decoding table.\<close>

lemma table_a2b_of_b2a: "\<forall>n \<in> set [0..<64]. table_a2b_base64 (b2a n) = Some n"
  by code_simp

lemma table_b2a_chars: "\<forall>c \<in> set table_b2a_base64. \<not> (of_char c :: nat) > 0x7f \<and> c \<noteq> CHR 0x0D \<and> c \<noteq> CHR 0x0A \<and>
     c \<noteq> CHR '' '' \<and> c \<noteq> BASE64_PAD"
  by (simp add: table_b2a_base64_def BASE64_PAD_def)

lemma table_b2a_length: "length table_b2a_base64 = 64"
  by (simp add: table_b2a_base64_def)

lemma b2a_props:
  assumes "n < 64"
  shows "\<not> (of_char (b2a n) :: nat) > 0x7f" "b2a n \<noteq> CHR 0x0D" "b2a n \<noteq> CHR 0x0A"
    "b2a n \<noteq> CHR '' ''" "b2a n \<noteq> BASE64_PAD" "table_a2b_base64 (b2a n) = Some n"
proof -
  have "b2a n \<in> set table_b2a_base64"
    unfolding b2a_def using assms table_b2a_length by (simp add: nth_mem)
  with table_b2a_chars show "\<not> (of_char (b2a n) :: nat) > 0x7f" "b2a n \<noteq> CHR 0x0D" "b2a n \<noteq> CHR 0x0A"
    "b2a n \<noteq> CHR '' ''" "b2a n \<noteq> BASE64_PAD" by blast+
  from table_a2b_of_b2a assms show "table_a2b_base64 (b2a n) = Some n" by simp
qed

text \<open>
  The decoding loop on the output of the encoder: a character of the table is shifted
  in, four of them give the three bytes back, and the pads of a last short group end
  the loop with no bits left.
\<close>

lemma of_char_lt_256: "(of_char c :: nat) < 256"
  using mod_less_divisor [of 256 "of_char c :: nat"] by simp

lemma a2b_loop_table_char:
  assumes "n < 64"
  shows "a2b_loop (b2a n # s) quad_pos leftchar leftbits out =
     (if leftbits + 6 \<ge> 8
      then a2b_loop s ((quad_pos + 1) mod 4) ((leftchar * 64 + n) mod 2 ^ (leftbits + 6 - 8))
             (leftbits + 6 - 8)
             (out @ [char_of (((leftchar * 64 + n) div 2 ^ (leftbits + 6 - 8)) mod 256)])
      else a2b_loop s ((quad_pos + 1) mod 4) (leftchar * 64 + n) (leftbits + 6) out)"
  using b2a_props [OF assms] by (simp add: Let_def)

lemma a2b_loop_pad_3:
  "quad_pos = 3 \<Longrightarrow> a2b_loop (BASE64_PAD # s) quad_pos leftchar leftbits out = (0, out)"
  by (simp add: BASE64_PAD_def)

lemma a2b_loop_pad_2:
  "quad_pos = 2 \<Longrightarrow>
     a2b_loop (BASE64_PAD # BASE64_PAD # s) quad_pos leftchar leftbits out = (0, out)"
  by (simp add: BASE64_PAD_def table_a2b_base64_def)

lemma a2b_loop_quad:
  fixes x y z :: nat
  assumes "x < 256" "y < 256" "z < 256"
  shows "a2b_loop (b2a (x div 4) # b2a (x mod 4 * 16 + y div 16) #
                   b2a (y mod 16 * 4 + z div 64) # b2a (z mod 64) # s) 0 0 0 out
         = a2b_loop s 0 0 0 (out @ [char_of x, char_of y, char_of z])"
  using hi6 [OF assms(1)] sext2 [OF assms(2), of x] sext3 [OF assms(3), of y] assms
  by (simp add: a2b_loop_table_char bytes2 [OF assms(2)] bytes3 [OF assms(3)]
      del: a2b_loop.simps)

lemma a2b_loop_last2:
  fixes x y :: nat
  assumes "x < 256" "y < 256"
  shows "a2b_loop [b2a (x div 4), b2a (x mod 4 * 16 + y div 16), b2a (y mod 16 * 4), BASE64_PAD]
           0 0 0 out
         = (0, out @ [char_of x, char_of y])"
  using hi6 [OF assms(1)] sext2 [OF assms(2), of x] sext3_last [of y] assms
  by (simp add: a2b_loop_table_char bytes2 [OF assms(2)] bytes3_last a2b_loop_pad_3
      del: a2b_loop.simps)

lemma a2b_loop_last1:
  fixes x :: nat
  assumes "x < 256"
  shows "a2b_loop [b2a (x div 4), b2a (x mod 4 * 16), BASE64_PAD, BASE64_PAD] 0 0 0 out
         = (0, out @ [char_of x])"
  using hi6 [OF assms(1)] sext2_last [of x] assms
  by (simp add: a2b_loop_table_char bytes2_last a2b_loop_pad_2 del: a2b_loop.simps)

lemma a2b_loop_b64encode: "a2b_loop (b64encode xs) 0 0 0 out = (0, out @ xs)"
proof (induction xs arbitrary: out rule: b64encode.induct)
  case (1 a b c rest)
  show ?case
    using a2b_loop_quad [OF of_char_lt_256 of_char_lt_256 of_char_lt_256, of a b c "b64encode rest" out]
      "1.IH" [OF refl refl refl, of "out @ [a, b, c]"]
    by (simp add: Let_def del: a2b_loop.simps)
next
  case (2 a b)
  show ?case
    using a2b_loop_last2 [OF of_char_lt_256 of_char_lt_256, of a b out]
    by (simp add: Let_def del: a2b_loop.simps)
next
  case (3 a)
  show ?case
    using a2b_loop_last1 [OF of_char_lt_256, of a out]
    by (simp add: Let_def del: a2b_loop.simps)
next
  case 4
  show ?case by simp
qed

lemma b64decode_b64encode: "b64decode (b64encode xs) = Inr xs"
  using a2b_loop_b64encode [of xs "[]"] by (simp add: b64decode_def)

section \<open>Attachments\<close>

lemma search_attachment_row:
  "i \<in> set (search_attachment d m rid nm) \<Longrightarrow>
     \<exists>a. ir_attachment d i = Some a \<and> res_model a = m \<and> res_id a = rid \<and> name a = nm"
  by (auto simp: search_attachment_def split: option.splits)

lemma map_filter_rows:
  "(\<And>i. i \<in> set ids \<Longrightarrow> tbl i \<noteq> None) \<Longrightarrow>
     List.map_filter tbl ids = map (\<lambda>i. the (tbl i)) ids"
  by (induction ids) (force simp: List.map_filter_simps)+

lemma read_datas_search:
  "read_datas d (search_attachment d m rid nm) =
     map (\<lambda>i. datas (the (ir_attachment d i))) (search_attachment d m rid nm)"
proof -
  have "List.map_filter (ir_attachment d) (search_attachment d m rid nm) =
          map (\<lambda>i. the (ir_attachment d i)) (search_attachment d m rid nm)"
    by (rule map_filter_rows) (auto dest: search_attachment_row)
  then show ?thesis by (simp add: read_datas_def)
qed


lemma py_int_7: "py_int ''7'' = Inr 7"
  by (simp add: py_int_def isspace_def isdigit_def digits_value_def)

text \<open>
  Claim C2 at its failing input. The model \<^verbatim>\<open>res.partner\<close> exists and the second
  segment \<^verbatim>\<open>abc\<close> is no integer: \<^verbatim>\<open>getattr\<close> raises \<^verbatim>\<open>ValueError\<close> out of \<^verbatim>\<open>int\<close>,
  where for the record 8, which does not exist, it returns \<^verbatim>\<open>-ENOENT\<close>.
\<close>

theorem getattr_non_numeric_id_raises:
  "OerpFSModel_getattr example_fs ''/res.partner/abc'' = Inl ValueError \<and>
   OerpFSModel_getattr example_fs ''/res.partner/abc/doc.txt'' = Inl ValueError \<and>
   OerpFSModel_getattr example_fs ''/res.partner/8'' = Inr NoEnt"
  by (simp add: OerpFSModel_getattr_def example_fs_def example_db_def py_int_def
      isspace_def isdigit_def digits_value_def Let_def)




text \<open>
  Claim C10. \<^verbatim>\<open>open\<close> on a path of three segments whose coordinates match no
  attachment raises \<^verbatim>\<open>IndexError\<close> (\<^verbatim>\<open>attachment_data[0]\<close> on the empty result of
  \<^verbatim>\<open>read\<close>) instead of returning \<^verbatim>\<open>-ENOENT\<close>, and leaves behind the empty buffer the
  base class has stored.
\<close>

theorem open_without_attachment_raises:
  assumes "tl (py_split CHR ''/'' path) = [m, seg, nm]"
    and "py_int seg = Inr rid"
    and "search_attachment (db s) m rid nm = []"
  shows "OerpFSModel_open s path =
           (Inl IndexError, s\<lparr>files := (files s)(path \<mapsto> StringIO_new [])\<rparr>)"
  using assms
  by (simp add: OerpFSModel_open_def OerpFS_open_def attachment_domain_def read_datas_def
      List.map_filter_simps Let_def)

theorem open_without_attachment_raises_witness:
  "tl (py_split CHR ''/'' ''/res.partner/7/nothing'') = [''res.partner'', ''7'', ''nothing''] \<and>
   py_int ''7'' = Inr 7 \<and>
   search_attachment (db example_fs) ''res.partner'' 7 ''nothing'' = [] \<and>
   OerpFSModel_open example_fs ''/res.partner/7/nothing'' =
     (Inl IndexError,
      example_fs\<lparr>files := (files example_fs)(''/res.partner/7/nothing'' \<mapsto> StringIO_new [])\<rparr>)"
proof -
  have 1: "tl (py_split CHR ''/'' ''/res.partner/7/nothing'')
             = [''res.partner'', ''7'', ''nothing'']"
    by simp
  have 3: "search_attachment (db example_fs) ''res.partner'' 7 ''nothing'' = []"
    by (simp add: search_attachment_def example_fs_def example_db_def upt_rec)
  from open_without_attachment_raises [OF 1 py_int_7 3] 1 py_int_7 3 show ?thesis by simp
qed

lemma b64encode_Nil_iff: "b64encode xs = [] \<longleftrightarrow> xs = []"
  by (induction xs rule: b64encode.induct) (simp_all add: Let_def)

lemma search_after_write:
  assumes "\<And>a. res_model (vals a) = m \<and> res_id (vals a) = rid \<and> name (vals a) = nm"
  shows "search_attachment (write_attachment d (search_attachment d m rid nm) vals) m rid nm
           = search_attachment d m rid nm"
  unfolding search_attachment_def write_attachment_def
  by (rule filter_cong) (auto simp: assms split: option.splits)

lemma read_after_write:
  assumes "\<And>a. res_model (vals a) = m \<and> res_id (vals a) = rid \<and> name (vals a) = nm"
    and "\<And>a. datas (vals a) = Some enc"
  shows "read_datas (write_attachment d (search_attachment d m rid nm) vals)
           (search_attachment d m rid nm)
         = map (\<lambda>i. Some enc) (search_attachment d m rid nm)"
proof -
  let ?ids = "search_attachment d m rid nm"
  let ?d' = "write_attachment d ?ids vals"
  have "read_datas ?d' (search_attachment ?d' m rid nm)
          = map (\<lambda>i. datas (the (ir_attachment ?d' i))) (search_attachment ?d' m rid nm)"
    by (rule read_datas_search)
  then have "read_datas ?d' ?ids = map (\<lambda>i. datas (the (ir_attachment ?d' i))) ?ids"
    by (simp add: search_after_write [OF assms(1)])
  also have "\<dots> = map (\<lambda>i. Some enc) ?ids"
  proof (rule map_cong [OF refl])
    fix i assume "i \<in> set ?ids"
    then obtain a where "ir_attachment d i = Some a"
      using search_attachment_row by blast
    with \<open>i \<in> set ?ids\<close> show "datas (the (ir_attachment ?d' i)) = Some enc"
      by (simp add: write_attachment_def assms(2))
  qed
  finally show ?thesis .
qed

lemma write_prefix:
  assumes "valid_buffer f"
  shows "take (length bs) (sbuf (sio_write (seek f 0) bs)) = bs"
  using assms by (auto simp: valid_buffer_def sio_write_def Let_def)

lemma opened_fs_eq:
  "opened_fs =
     \<lparr>files = [''/res.partner/7/doc.txt'' \<mapsto> StringIO_new ''hello''], db = example_db\<rparr>"
proof -
  have 1: "search_attachment example_db ''res.partner'' 7 ''doc.txt'' = [0]"
    by (simp add: search_attachment_def example_db_def upt_rec)
  have 2: "read_datas example_db [0] = [Some ''aGVsbG8='']"
    by (simp add: read_datas_def example_db_def List.map_filter_simps)
  have 3: "b64decode ''aGVsbG8='' = Inr ''hello''"
    by code_simp
  show ?thesis
    by (simp add: opened_fs_def OerpFSModel_open_def OerpFS_open_def example_fs_def
        attachment_domain_def py_int_7 1 2 3 Let_def)
qed

text \<open>
  Claim C1. For every byte string and every path of three segments whose coordinates
  match an existing attachment, on a mount where the path is open (\<^verbatim>\<open>write\<close> needs a
  live buffer; every buffer the operations produce is valid): \<^verbatim>\<open>write(p, B, 0)\<close>
  accepts all bytes, \<^verbatim>\<open>flush(p)\<close> stores the base64 encoding of the buffer in every
  matching attachment, \<^verbatim>\<open>release(p)\<close> frees the buffer, \<^verbatim>\<open>open(p)\<close> fetches and decodes
  what was stored, none of them raises, and \<^verbatim>\<open>read(p, len(B), 0)\<close> then returns
  exactly \<^verbatim>\<open>B\<close>.
\<close>

theorem attachment_round_trip:
  assumes "tl (py_split CHR ''/'' path) = [m, seg, nm]"
    and "py_int seg = Inr rid"
    and "search_attachment (db s) m rid nm \<noteq> []"
    and "files s path = Some f"
    and "valid_buffer f"
  shows "\<exists>s1 s2 s3 s4 s5.
      OerpFS_write s path bs 0 = (Inr (Ok (int (length bs))), s1) \<and>
      OerpFSModel_flush s1 path = (Inr (), s2) \<and>
      read_datas (db s2) (search_attachment (db s2) m rid nm)
        = map (\<lambda>i. Some (b64encode (sbuf (sio_write (seek f 0) bs))))
            (search_attachment (db s) m rid nm) \<and>
      OerpFS_release s2 path = (Inr (), s3) \<and>
      OerpFSModel_open s3 path = (Inr (), s4) \<and>
      OerpFS_read OerpFSModel_open s4 path (int (length bs)) 0 = (Inr bs, s5)"
proof -
  let ?f1 = "sio_write (seek f 0) bs"
  let ?enc = "b64encode (sbuf ?f1)"
  let ?ids = "search_attachment (db s) m rid nm"
  let ?vals = "\<lambda>a. a\<lparr>att_type := ''binary'', datas := Some ?enc, res_model := m,
                      res_id := rid, name := nm, datas_fname := Some nm\<rparr>"
  define s1 where "s1 = s\<lparr>files := (files s)(path \<mapsto> ?f1)\<rparr>"
  define s2 where "s2 = s1\<lparr>db := write_attachment (db s1) ?ids ?vals\<rparr>"
  define s3 where "s3 = s2\<lparr>files := (files s2)(path := None)\<rparr>"
  define s4 where "s4 = s3\<lparr>files := (files s3)(path \<mapsto> StringIO_new (sbuf ?f1))\<rparr>"
  define s5 where "s5 = s4\<lparr>files := (files s4)(path \<mapsto>
      snd (sio_read (seek (StringIO_new (sbuf ?f1)) 0) (int (length bs))))\<rparr>"
  have dom: "attachment_domain (tl (py_split CHR ''/'' path)) = Inr (m, rid, nm)"
    using assms(1,2) by (simp add: attachment_domain_def)
  have w: "OerpFS_write s path bs 0 = (Inr (Ok (int (length bs))), s1)"
    using assms(4) by (simp add: OerpFS_write_def s1_def)
  have fl: "OerpFSModel_flush s1 path = (Inr (), s2)"
    using dom by (simp add: OerpFSModel_flush_def s1_def s2_def getvalue_def Let_def)
  have db2: "db s2 = write_attachment (db s) ?ids ?vals"
    by (simp add: s2_def s1_def)
  have srch: "search_attachment (db s2) m rid nm = ?ids"
    unfolding db2 by (rule search_after_write) simp
  have rd: "read_datas (db s2) ?ids = map (\<lambda>i. Some ?enc) ?ids"
    unfolding db2 by (rule read_after_write) simp_all
  have rel: "OerpFS_release s2 path = (Inr (), s3)"
    by (simp add: OerpFS_release_def s3_def s2_def s1_def)
  obtain i rest where ids: "?ids = i # rest"
    using assms(3) by (cases ?ids) auto
  have db3: "db s3 = db s2"
    by (simp add: s3_def)
  have op: "OerpFSModel_open s3 path = (Inr (), s4)"
  proof (cases "sbuf ?f1 = []")
    case True
    then show ?thesis
      using dom srch rd ids
      by (simp add: OerpFSModel_open_def OerpFS_open_def db3 s4_def Let_def)
  next
    case False
    then have "?enc \<noteq> []" by (simp add: b64encode_Nil_iff)
    then show ?thesis
      using dom srch rd ids
      by (simp add: OerpFSModel_open_def OerpFS_open_def db3 s4_def Let_def
          b64decode_b64encode)
  qed
  have "fst (sio_read (seek (StringIO_new (sbuf ?f1)) 0) (int (length bs)))
          = take (nat (int (length bs))) (drop (nat 0) (sbuf (StringIO_new (sbuf ?f1))))"
    by (rule read_valid_buffer [OF valid_new]) simp
  then have "fst (sio_read (seek (StringIO_new (sbuf ?f1)) 0) (int (length bs))) = bs"
    using write_prefix [OF assms(5), of bs] by (simp add: StringIO_new_def)
  then have re: "OerpFS_read OerpFSModel_open s4 path (int (length bs)) 0 = (Inr bs, s5)"
    by (simp add: OerpFS_read_def s4_def s5_def case_prod_beta)
  from w fl srch rd rel op re show ?thesis by auto
qed

theorem attachment_round_trip_witness:
  "tl (py_split CHR ''/'' ''/res.partner/7/doc.txt'') = [''res.partner'', ''7'', ''doc.txt''] \<and>
   py_int ''7'' = Inr 7 \<and>
   search_attachment (db opened_fs) ''res.partner'' 7 ''doc.txt'' = [0] \<and>
   files opened_fs ''/res.partner/7/doc.txt'' = Some (StringIO_new ''hello'') \<and>
   valid_buffer (StringIO_new ''hello'') \<and>
   (\<exists>s1 s2 s3 s4 s5.
      OerpFS_write opened_fs ''/res.partner/7/doc.txt'' ''HI'' 0 = (Inr (Ok 2), s1) \<and>
      OerpFSModel_flush s1 ''/res.partner/7/doc.txt'' = (Inr (), s2) \<and>
      OerpFS_release s2 ''/res.partner/7/doc.txt'' = (Inr (), s3) \<and>
      OerpFSModel_open s3 ''/res.partner/7/doc.txt'' = (Inr (), s4) \<and>
      OerpFS_read OerpFSModel_open s4 ''/res.partner/7/doc.txt'' 2 0 = (Inr ''HI'', s5))"
proof -
  have 1: "tl (py_split CHR ''/'' ''/res.partner/7/doc.txt'')
             = [''res.partner'', ''7'', ''doc.txt'']"
    by simp
  have 3: "search_attachment (db opened_fs) ''res.partner'' 7 ''doc.txt'' = [0]"
    by (simp add: opened_fs_eq search_attachment_def example_db_def upt_rec)
  then have found: "search_attachment (db opened_fs) ''res.partner'' 7 ''doc.txt'' \<noteq> []"
    by simp
  have 4: "files opened_fs ''/res.partner/7/doc.txt'' = Some (StringIO_new ''hello'')"
    by (simp add: opened_fs_eq)
  have 5: "valid_buffer (StringIO_new ''hello'')"
    by (rule valid_new)
  from attachment_round_trip [OF 1 py_int_7 found 4 5, of "''HI''"]
  obtain s1 s2 s3 s4 s5 where
    "OerpFS_write opened_fs ''/res.partner/7/doc.txt'' ''HI'' 0 = (Inr (Ok 2), s1)"
    "OerpFSModel_flush s1 ''/res.partner/7/doc.txt'' = (Inr (), s2)"
    "OerpFS_release s2 ''/res.partner/7/doc.txt'' = (Inr (), s3)"
    "OerpFSModel_open s3 ''/res.partner/7/doc.txt'' = (Inr (), s4)"
    "OerpFS_read OerpFSModel_open s4 ''/res.partner/7/doc.txt'' 2 0 = (Inr ''HI'', s5)"
    by auto
  with 1 py_int_7 3 4 5 show ?thesis by blast
qed

section \<open>CSV import\<close>

lemma csv_fs_files:
  "files (csv_fs path content) path = Some (sio_write (StringIO_new []) content)"
  by (simp add: csv_fs_def OerpFS_create_def OerpFS_write_def seek_def StringIO_new_def)

lemma csv_fs_log: "import_log (csv_fs path content) = []"
  by (simp add: csv_fs_def OerpFS_create_def OerpFS_write_def)

lemma contact_model: "py_replace ''.csv'' [] ''/contact.csv'' = ''/contact''"
  by (simp add: py_replace.simps)

lemma contact_rows:
  "csv_reader example_env (getvalue (sio_write (StringIO_new []) ''name,age\<newline>Alice,30\<newline>Bob,40\<newline>''))
     = Inr [[''name'', ''age''], [''Alice'', ''30''], [''Bob'', ''40'']]"
  by (simp add: example_env_def unquoted_csv_reader_def sio_write_def StringIO_new_def
      getvalue_def Let_def)




text \<open>
  Claim C5, as the code has it. For a buffered file whose content has a first row and
  whose model the registry knows, \<^verbatim>\<open>release\<close> calls the import exactly once: the log
  grows by one call, with the first row as the field names, the rows after it in order
  as the data, the mode \<^verbatim>\<open>init\<close>, and as the model the path with every occurrence of
  \<^verbatim>\<open>.csv\<close> removed and its first character dropped.
\<close>

theorem csv_release_imports_once:
  assumes "files s path = Some f"
    and "csv_reader env (getvalue f) = Inr (header # rows)"
    and "pool_has env (drop 1 (py_replace ''.csv'' [] path))"
  shows "import_log (snd (OerpFSCsvImport_release env s path)) =
           import_log s @ [\<lparr>imp_model = drop 1 (py_replace ''.csv'' [] path),
                    imp_fields = header, imp_datas = rows, imp_mode = ''init''\<rparr>]"
  using assms
  by (simp add: OerpFSCsvImport_release_def Let_def split: option.splits)

theorem csv_release_imports_once_witness:
  "files (csv_fs ''/contact.csv'' ''name,age\<newline>Alice,30\<newline>Bob,40\<newline>'') ''/contact.csv''
     = Some (sio_write (StringIO_new []) ''name,age\<newline>Alice,30\<newline>Bob,40\<newline>'') \<and>
   csv_reader example_env (getvalue (sio_write (StringIO_new []) ''name,age\<newline>Alice,30\<newline>Bob,40\<newline>''))
     = Inr [[''name'', ''age''], [''Alice'', ''30''], [''Bob'', ''40'']] \<and>
   pool_has example_env (drop 1 (py_replace ''.csv'' [] ''/contact.csv'')) \<and>
   import_log (snd (OerpFSCsvImport_release example_env
            (csv_fs ''/contact.csv'' ''name,age\<newline>Alice,30\<newline>Bob,40\<newline>'') ''/contact.csv''))
     = [\<lparr>imp_model = ''contact'', imp_fields = [''name'', ''age''],
         imp_datas = [[''Alice'', ''30''], [''Bob'', ''40'']], imp_mode = ''init''\<rparr>]"
proof -
  have 3: "pool_has example_env (drop 1 (py_replace ''.csv'' [] ''/contact.csv''))"
    by (simp add: contact_model example_env_def)
  from csv_release_imports_once [OF csv_fs_files contact_rows 3]
    csv_fs_files [of "''/contact.csv''"] contact_rows 3
  show ?thesis by (simp add: csv_fs_log contact_model)
qed

text \<open>
  The claim as stated fails for a name that holds \<^verbatim>\<open>.csv\<close> before its suffix: for
  \<^verbatim>\<open>/a.csv.b.csv\<close> the import is called for the model \<^verbatim>\<open>a.b\<close>, and the name without
  its suffix is \<^verbatim>\<open>a.csv.b\<close>.
\<close>

theorem replace_not_suffix_counterexample:
  "import_log (snd (OerpFSCsvImport_release example_env
          (csv_fs ''/a.csv.b.csv'' ''x\<newline>1\<newline>'') ''/a.csv.b.csv'')) =
     [\<lparr>imp_model = ''a.b'', imp_fields = [''x''], imp_datas = [[''1'']], imp_mode = ''init''\<rparr>] \<and>
   ''a.b'' \<noteq> ''a.csv.b''"
  by (simp add: OerpFSCsvImport_release_def csv_fs_files csv_fs_log example_env_def
      unquoted_csv_reader_def sio_write_def StringIO_new_def getvalue_def Let_def
      py_replace.simps)




end
